theory Spec2Isabelle
  imports Complex_Main
begin

text \<open>
  The browser client of the audio call analyzer: the upload form with its validation of
  the chosen file, the page that sends the file to the \<open>/analyze\<close> endpoint and keeps the
  state of the request, and the views that render the tone, the issues and the transcript
  of the response.  Each React component is modelled by its state (a record), its event
  handlers (functions from state to state) and what it renders (a record of the values the
  markup is built from).  The backend that answers the request is not among the sources;
  its analyze operation is described from the design, in a section of its own.
\<close>

section \<open>Strings as the upload form uses them\<close>

text \<open>
  A JavaScript string is modelled as a \<^typ>\<open>string\<close>.  The form only ever compares against
  the ASCII texts \<open>.mp3\<close>, \<open>.wav\<close> and \<open>.m4a\<close>; \<open>toLowerCase\<close> maps the letters
  \<open>A\<close>..\<open>Z\<close> to \<open>a\<close>..\<open>z\<close> and no other character to one of the letters of
  these three texts, so every other character is left as it is.
\<close>

definition toLowerChar :: "char \<Rightarrow> char" where
  "toLowerChar c =
     (case map_of (zip ''ABCDEFGHIJKLMNOPQRSTUVWXYZ'' ''abcdefghijklmnopqrstuvwxyz'') c of
        None \<Rightarrow> c
      | Some l \<Rightarrow> l)"

definition toLowerCase :: "string \<Rightarrow> string" where
  "toLowerCase s = map toLowerChar s"

text \<open>
  \<open>s.split(sep)\<close> for a one-character separator: the pieces between the separators, in
  order; a string without the separator (the empty string too) gives one piece.
\<close>

fun split_acc :: "char \<Rightarrow> string \<Rightarrow> string \<Rightarrow> string list" where
  "split_acc sep cur [] = [cur]"
| "split_acc sep cur (c # cs) =
     (if c = sep then cur # split_acc sep [] cs else split_acc sep (cur @ [c]) cs)"

definition split :: "char \<Rightarrow> string \<Rightarrow> string list" where
  "split sep s = split_acc sep [] s"

text \<open>\<open>xs.pop()\<close>: the last element, \<open>undefined\<close> (here \<open>None\<close>) on an empty array.\<close>

definition pop :: "'a list \<Rightarrow> 'a option" where
  "pop xs = (if xs = [] then None else Some (last xs))"

text \<open>\<open>xs.join(sep)\<close>.\<close>

fun join :: "string \<Rightarrow> string list \<Rightarrow> string" where
  "join sep [] = []"
| "join sep [x] = x"
| "join sep (x # y # ys) = x @ sep @ join sep (y # ys)"

section \<open>UploadForm\<close>

text \<open>
  The browser's \<open>File\<close>: its name, its size in bytes, its MIME type, its modification time
  and the bytes themselves, which the form never reads and which are kept here as an opaque
  handle.
\<close>

record File =
  name :: string
  size_bytes :: nat
  mime_type :: string
  lastModified :: nat
  blob :: nat

text \<open>The component's state (\<open>useState\<close>) and its \<open>isProcessing\<close> prop.\<close>

record UploadForm =
  selectedFile :: "File option"
  error :: string
  isDragging :: bool

definition initialUploadForm :: UploadForm where
  "initialUploadForm = \<lparr>selectedFile = None, error = [], isDragging = False\<rparr>"

definition allowedTypes :: "string list" where
  "allowedTypes = [''.mp3'', ''.wav'', ''.m4a'']"

definition maxFileSize :: nat where
  "maxFileSize = 25 * 1024 * 1024"

text \<open>
  \<open>"." + file.name.split(".").pop()?.toLowerCase()\<close>; an \<open>undefined\<close> operand of \<open>+\<close> is
  converted to the text \<open>undefined\<close>.
\<close>

definition fileExt :: "File \<Rightarrow> string" where
  "fileExt file =
     ''.'' @ (case pop (split (CHR ''.'') (name file)) of
                None \<Rightarrow> ''undefined''
              | Some e \<Rightarrow> toLowerCase e)"

definition invalidTypeError :: string where
  "invalidTypeError = ''Invalid file type. Allowed: '' @ join '', '' allowedTypes"

definition sizeError :: string where
  "sizeError = ''File size exceeds 25 MB limit''"

definition handleFileSelect :: "File \<Rightarrow> UploadForm \<Rightarrow> UploadForm" where
  "handleFileSelect file st =
     (if fileExt file \<notin> set allowedTypes
      then st\<lparr>error := invalidTypeError, selectedFile := None\<rparr>
      else if size_bytes file > maxFileSize
      then st\<lparr>error := sizeError, selectedFile := None\<rparr>
      else st\<lparr>error := [], selectedFile := Some file\<rparr>)"

text \<open>
  \<open>e.target.files?.[0]\<close> and \<open>e.dataTransfer.files?.[0]\<close> are the first file of the event,
  if there is one.
\<close>

definition handleInputChange :: "File option \<Rightarrow> UploadForm \<Rightarrow> UploadForm" where
  "handleInputChange file st = (case file of None \<Rightarrow> st | Some f \<Rightarrow> handleFileSelect f st)"

definition handleDragOver :: "UploadForm \<Rightarrow> UploadForm" where
  "handleDragOver st = st\<lparr>isDragging := True\<rparr>"

definition handleDragLeave :: "UploadForm \<Rightarrow> UploadForm" where
  "handleDragLeave st = st\<lparr>isDragging := False\<rparr>"

definition handleDrop :: "File option \<Rightarrow> UploadForm \<Rightarrow> UploadForm" where
  "handleDrop file st =
     (case file of
        None \<Rightarrow> st\<lparr>isDragging := False\<rparr>
      | Some f \<Rightarrow> handleFileSelect f (st\<lparr>isDragging := False\<rparr>))"

text \<open>
  \<open>handleSubmit\<close> changes no state; its effect is the calls of \<open>onUpload\<close> it makes, returned
  here as the list of their arguments.
\<close>

definition handleSubmit :: "bool \<Rightarrow> UploadForm \<Rightarrow> File list" where
  "handleSubmit isProcessing st =
     (case selectedFile st of
        None \<Rightarrow> []
      | Some f \<Rightarrow> if \<not> isProcessing then [f] else [])"

text \<open>
  \<open>handleReset\<close> also empties the value of the hidden file input, which is outside the
  state of the component.
\<close>

definition handleReset :: "UploadForm \<Rightarrow> UploadForm" where
  "handleReset st = st\<lparr>selectedFile := None, error := []\<rparr>"

text \<open>
  The events of the form.  Each arrives together with the value the \<open>isProcessing\<close> prop has
  at that moment; \<open>step\<close> gives the next state and the \<open>onUpload\<close> calls made.
\<close>

datatype UploadEvent =
    InputChange "File option"
  | DragOver
  | DragLeave
  | Drop "File option"
  | Submit
  | Reset

fun step :: "bool \<Rightarrow> UploadEvent \<Rightarrow> UploadForm \<Rightarrow> UploadForm \<times> File list" where
  "step p (InputChange file) st = (handleInputChange file st, [])"
| "step p DragOver st = (handleDragOver st, [])"
| "step p DragLeave st = (handleDragLeave st, [])"
| "step p (Drop file) st = (handleDrop file st, [])"
| "step p Submit st = (st, handleSubmit p st)"
| "step p Reset st = (handleReset st, [])"

text \<open>
  An interaction sequence, logged: for every event the value of \<open>isProcessing\<close>, the state
  the event found, and the \<open>onUpload\<close> calls it made.
\<close>

fun interact :: "UploadForm \<Rightarrow> (bool \<times> UploadEvent) list \<Rightarrow> (bool \<times> UploadForm \<times> File list) list" where
  "interact st [] = []"
| "interact st ((p, ev) # evs) = (p, st, snd (step p ev st)) # interact (fst (step p ev st)) evs"

text \<open>A file is validated when \<open>handleFileSelect\<close> makes it the selected file.\<close>

definition validated :: "File \<Rightarrow> bool" where
  "validated f \<longleftrightarrow> selectedFile (handleFileSelect f initialUploadForm) = Some f"

text \<open>
  The extension of a file name in the words of the interface description, not taken from
  the code: the text from the last dot on, lowercased; a name without a dot has none.  It
  is what \<open>fileExt\<close> is compared with.
\<close>

definition extension :: "string \<Rightarrow> string option" where
  "extension n =
     (if CHR ''.'' \<in> set n
      then Some (CHR ''.'' # toLowerCase (rev (takeWhile (\<lambda>c. c \<noteq> CHR ''.'') (rev n))))
      else None)"

section \<open>The response of the analyze request (types.ts)\<close>

text \<open>
  A \<open>number\<close> is modelled as a \<^typ>\<open>real\<close>.  The response is parsed JSON that nothing
  checks, so a field typed as a union of string literals holds any string at run time.
\<close>

record TranscriptSegment =
  speaker :: string
  seg_text :: string
  seg_start :: real
  seg_end :: real

record Issue =
  title :: string
  details :: string
  issue_evidence :: "string list"

record Tone =
  label :: string
  confidence :: real
  evidence :: "string list"

record SpeakerTotals =
  segments :: real
  duration_seconds :: real
  word_count :: real

record SpeakerStatistics =
  agent :: SpeakerTotals
  customer :: SpeakerTotals
  total_segments :: real
  total_duration :: real

record Metadata =
  filename :: string
  file_size_mb :: real
  processing_time_seconds :: real
  request_id :: string
  timestamp :: string
  segment_count :: real
  speaker_statistics :: SpeakerStatistics

text \<open>
  \<open>AnalysisResponse\<close> declares \<open>transcript\<close>, \<open>issues\<close> and \<open>tone\<close> as required and
  \<open>metadata?\<close> as optional.  The value is the parsed body of the response, which nothing
  checks against the interface, so at run time each of the four fields is there or is
  \<open>undefined\<close> (\<open>None\<close>); a field that is there is taken to have its declared type.
  \<open>declaredShape\<close> says that the three required fields are there.
\<close>

record AnalysisResponse =
  transcript :: "TranscriptSegment list option"
  issues :: "Issue list option"
  tone :: "Tone option"
  metadata :: "Metadata option"

definition declaredShape :: "AnalysisResponse \<Rightarrow> bool" where
  "declaredShape r \<longleftrightarrow> transcript r \<noteq> None \<and> issues r \<noteq> None \<and> tone r \<noteq> None"

datatype ProcessingState = Idle | Uploading | Processing | Success | Error

section \<open>ToneView\<close>

record ToneStyle =
  bg :: string
  text_colour :: string
  border :: string
  progress :: string

definition calmStyle :: ToneStyle where
  "calmStyle = \<lparr>bg = ''bg-green-50'', text_colour = ''text-green-700'',
                 border = ''border-green-200'', progress = ''bg-green-500''\<rparr>"

definition frustratedStyle :: ToneStyle where
  "frustratedStyle = \<lparr>bg = ''bg-yellow-50'', text_colour = ''text-yellow-700'',
                       border = ''border-yellow-200'', progress = ''bg-yellow-500''\<rparr>"

definition angryStyle :: ToneStyle where
  "angryStyle = \<lparr>bg = ''bg-red-50'', text_colour = ''text-red-700'',
                  border = ''border-red-200'', progress = ''bg-red-500''\<rparr>"

definition anxiousStyle :: ToneStyle where
  "anxiousStyle = \<lparr>bg = ''bg-purple-50'', text_colour = ''text-purple-700'',
                    border = ''border-purple-200'', progress = ''bg-purple-500''\<rparr>"

text \<open>The object literal \<open>toneConfig\<close>: its own properties, in order.\<close>

definition toneConfig :: "(string \<times> ToneStyle) list" where
  "toneConfig = [(''Calm'', calmStyle), (''Frustrated'', frustratedStyle),
                 (''Angry'', angryStyle), (''Anxious'', anxiousStyle)]"

text \<open>
  Reading \<open>obj[key]\<close> on an object literal: an own property, else a property inherited from
  \<open>Object.prototype\<close> (a function or an object, so truthy), else \<open>undefined\<close>.  The keys of
  \<open>Object.prototype\<close> are those of the language standard.
\<close>

datatype 'a property = Own 'a | Inherited | Undefined

definition objectPrototypeKeys :: "string list" where
  "objectPrototypeKeys =
     [''constructor'', ''hasOwnProperty'', ''isPrototypeOf'', ''propertyIsEnumerable'',
      ''toLocaleString'', ''toString'', ''valueOf'', ''__proto__'',
      ''__defineGetter__'', ''__defineSetter__'', ''__lookupGetter__'', ''__lookupSetter__'']"

definition getProperty :: "(string \<times> 'a) list \<Rightarrow> string \<Rightarrow> 'a property" where
  "getProperty obj key =
     (case map_of obj key of
        Some v \<Rightarrow> Own v
      | None \<Rightarrow> if key \<in> set objectPrototypeKeys then Inherited else Undefined)"

text \<open>
  An inherited value has none of the four style fields: each read gives \<open>undefined\<close>, which
  a template literal prints as the text \<open>undefined\<close>.
\<close>

definition undefinedStyle :: ToneStyle where
  "undefinedStyle = \<lparr>bg = ''undefined'', text_colour = ''undefined'',
                      border = ''undefined'', progress = ''undefined''\<rparr>"

text \<open>\<open>Math.round\<close>: the nearest integer, a tie going up.\<close>

definition Math_round :: "real \<Rightarrow> int" where
  "Math_round x = \<lfloor>x + 1 / 2\<rfloor>"

text \<open>
  \<open>Math.round(tone.confidence * 100)\<close>.  The product of two doubles is the exact product
  rounded to a double; that rounding is the parameter \<open>fl\<close>.
\<close>

definition confidencePercent :: "(real \<Rightarrow> real) \<Rightarrow> Tone \<Rightarrow> int" where
  "confidencePercent fl t = Math_round (fl (confidence t * 100))"

text \<open>
  What \<open>ToneView\<close> renders: the style every class attribute is built from, the text of the
  label badge, the percentage of the heading and of the caption (each printed as \<open>n%\<close>), the
  width of the progress bar (the style \<open>width: n%\<close>), and the reasoning list when there is
  evidence.
\<close>

record ToneViewOut =
  config :: ToneStyle
  badgeText :: string
  percentHeading :: int
  percentCaption :: int
  barWidth :: int
  reasoning :: "string list option"

definition ToneView :: "(real \<Rightarrow> real) \<Rightarrow> Tone \<Rightarrow> ToneViewOut" where
  "ToneView fl t =
     \<lparr>config = (case getProperty toneConfig (label t) of
                   Own c \<Rightarrow> c
                 | Inherited \<Rightarrow> undefinedStyle
                 | Undefined \<Rightarrow> calmStyle),
      badgeText = label t,
      percentHeading = confidencePercent fl t,
      percentCaption = confidencePercent fl t,
      barWidth = confidencePercent fl t,
      reasoning = (if evidence t \<noteq> [] then Some (evidence t) else None)\<rparr>"

section \<open>TranscriptView and IssuesView\<close>

text \<open>
  \<open>x.toFixed(1)\<close> prints a double with one decimal; the printing is the parameter
  \<open>toFixed1\<close>.
\<close>

record SegmentView =
  bgColor :: string
  textColor :: string
  badgeBg :: string
  speakerBadge :: string
  times :: string
  duration :: string
  segmentText :: string

definition segmentView :: "(real \<Rightarrow> string) \<Rightarrow> TranscriptSegment \<Rightarrow> SegmentView" where
  "segmentView toFixed1 segment =
     (let isAgent = (speaker segment = ''Agent'') in
      \<lparr>bgColor = (if isAgent then ''bg-blue-50'' else ''bg-orange-50''),
       textColor = (if isAgent then ''text-blue-700'' else ''text-orange-700''),
       badgeBg = (if isAgent then ''bg-blue-100'' else ''bg-orange-100''),
       speakerBadge = speaker segment,
       times = toFixed1 (seg_start segment) @ ''s - '' @ toFixed1 (seg_end segment) @ ''s'',
       duration = toFixed1 (seg_end segment - seg_start segment) @ ''s'',
       segmentText = seg_text segment\<rparr>)"

datatype TranscriptViewOut =
    TranscriptEmpty string
  | TranscriptSegments nat "SegmentView list"

definition TranscriptView :: "(real \<Rightarrow> string) \<Rightarrow> TranscriptSegment list \<Rightarrow> TranscriptViewOut" where
  "TranscriptView toFixed1 ts =
     (if length ts = 0 then TranscriptEmpty ''No transcript available''
      else TranscriptSegments (length ts) (map (segmentView toFixed1) ts))"

record IssueCard =
  cardNumber :: nat
  cardTitle :: string
  cardDetails :: string
  cardEvidence :: "string list option"

definition issueCard :: "nat \<times> Issue \<Rightarrow> IssueCard" where
  "issueCard p =
     (case p of (index, issue) \<Rightarrow>
        \<lparr>cardNumber = index + 1,
         cardTitle = title issue,
         cardDetails = details issue,
         cardEvidence =
           (if issue_evidence issue \<noteq> [] then Some (issue_evidence issue) else None)\<rparr>)"

datatype IssuesViewOut =
    IssuesEmpty string
  | IssuesCards nat "IssueCard list"

definition IssuesView :: "Issue list \<Rightarrow> IssuesViewOut" where
  "IssuesView items =
     (if length items = 0 then IssuesEmpty ''No issues found''
      else IssuesCards (length items) (map issueCard (enumerate 0 items)))"

section \<open>App\<close>

record App =
  state :: ProcessingState
  data :: "AnalysisResponse option"
  app_error :: string
  uploadedFileName :: string

definition initialApp :: App where
  "initialApp = \<lparr>state = Idle, data = None, app_error = [], uploadedFileName = []\<rparr>"

text \<open>
  What a \<open>throw\<close> or a rejected promise carries: an \<open>Error\<close> instance with its message, or
  some other value.
\<close>

datatype thrown = ErrorInstance string | NotAnError

datatype 'a settled = Resolves 'a | Rejects thrown

text \<open>
  The parsed body of a response that is not ok, as far as \<open>errorData.detail || ...\<close> reads
  it: a truthy \<open>detail\<close> (given as the message \<open>new Error\<close> makes of it), a missing or
  falsy \<open>detail\<close>, or the body \<open>null\<close>, on which reading \<open>detail\<close> throws a \<open>TypeError\<close>
  with the message of the engine.
\<close>

datatype ErrorBody = Detail string | NoDetail | NullBody string

text \<open>
  What the request meets: \<open>fetch\<close> rejects; or the response is ok and \<open>response.json()\<close>
  settles; or the response is not ok, with its status and the settling of
  \<open>response.json()\<close>.  The parsed body of an ok response is stored as it is: \<open>None\<close> is
  the body \<open>null\<close> (and the other falsy values, which \<open>data && ...\<close> treats alike, but
  for the body \<open>0\<close>, printed as the text \<open>0\<close>); any other body is given by which of the four
  fields it has, the body \<open>{}\<close> having none.
\<close>

datatype FetchOutcome =
    FetchRejects thrown
  | ResponseOk "AnalysisResponse option settled"
  | ResponseNotOk nat "ErrorBody settled"

text \<open>The decimal text of a status code, as a template literal prints it.\<close>

definition digitChar :: "nat \<Rightarrow> char" where
  "digitChar d = ''0123456789'' ! d"

fun showNat :: "nat \<Rightarrow> string" where
  "showNat n = (if n < 10 then [digitChar n] else showNat (n div 10) @ [digitChar (n mod 10)])"

declare showNat.simps [simp del]

text \<open>
  The body of the \<open>try\<close> block after \<open>setState("processing")\<close>: the value thrown, or the
  parsed result.  \<open>response.json().catch(() => ({ detail: "Unknown error" }))\<close> replaces a
  body that does not parse.
\<close>

fun request :: "FetchOutcome \<Rightarrow> thrown + AnalysisResponse option" where
  "request (FetchRejects t) = Inl t"
| "request (ResponseOk (Rejects t)) = Inl t"
| "request (ResponseOk (Resolves result)) = Inr result"
| "request (ResponseNotOk status body) =
     (case (case body of Rejects t \<Rightarrow> Detail ''Unknown error'' | Resolves errorData \<Rightarrow> errorData) of
        Detail d \<Rightarrow> Inl (ErrorInstance d)
      | NoDetail \<Rightarrow> Inl (ErrorInstance (''HTTP error! status: '' @ showNat status))
      | NullBody m \<Rightarrow> Inl (ErrorInstance m))"

text \<open>\<open>err instanceof Error ? err.message : "Failed to process audio"\<close>.\<close>

fun errorMessage :: "thrown \<Rightarrow> string" where
  "errorMessage (ErrorInstance m) = m"
| "errorMessage NotAnError = ''Failed to process audio''"

text \<open>
  \<open>handleUpload\<close> in its three stretches: the setters before the \<open>try\<close>, the
  \<open>setState("processing")\<close> before the request is awaited, and the setters after it has
  settled.  \<open>handleUpload_states\<close> lists the state after each stretch,
  \<open>handleUpload\<close> is the last of them.
\<close>

definition handleUpload_start :: "File \<Rightarrow> App \<Rightarrow> App" where
  "handleUpload_start file s =
     s\<lparr>state := Uploading, app_error := [], data := None, uploadedFileName := name file\<rparr>"

definition handleUpload_sent :: "App \<Rightarrow> App" where
  "handleUpload_sent s = s\<lparr>state := Processing\<rparr>"

definition handleUpload_settled :: "FetchOutcome \<Rightarrow> App \<Rightarrow> App" where
  "handleUpload_settled outcome s =
     (case request outcome of
        Inr result \<Rightarrow> s\<lparr>data := result, state := Success\<rparr>
      | Inl err \<Rightarrow> s\<lparr>app_error := errorMessage err, state := Error\<rparr>)"

definition handleUpload_states :: "File \<Rightarrow> FetchOutcome \<Rightarrow> App \<Rightarrow> App list" where
  "handleUpload_states file outcome s =
     [handleUpload_start file s,
      handleUpload_sent (handleUpload_start file s),
      handleUpload_settled outcome (handleUpload_sent (handleUpload_start file s))]"

definition handleUpload :: "File \<Rightarrow> FetchOutcome \<Rightarrow> App \<Rightarrow> App" where
  "handleUpload file outcome s = last (handleUpload_states file outcome s)"

definition handleReset_app :: "App \<Rightarrow> App" where
  "handleReset_app s = s\<lparr>state := Idle, data := None, app_error := [], uploadedFileName := []\<rparr>"

text \<open>The request fails: a status that is not ok, or anything thrown.\<close>

fun requestFails :: "FetchOutcome \<Rightarrow> bool" where
  "requestFails (FetchRejects t) = True"
| "requestFails (ResponseOk (Rejects t)) = True"
| "requestFails (ResponseOk (Resolves result)) = False"
| "requestFails (ResponseNotOk status body) = True"

text \<open>
  What \<open>App\<close> renders.  The file header shows \<open>data.metadata.filename || uploadedFileName\<close>,
  the time stamp handed to \<open>Date\<close>, and \<open>request_id.slice(0, 8)\<close>; \<open>StatsCards\<close> is kept as
  the metadata it is given.  \<open>ToneView\<close>, \<open>IssuesView\<close> and \<open>TranscriptView\<close> are rendered
  in this order, and each reads a property of its prop at once (\<open>tone.confidence\<close>,
  \<open>issues.length\<close>, \<open>transcript.length\<close>): on a prop that is \<open>undefined\<close> the read throws a
  \<open>TypeError\<close>, and the render of the dashboard, and with it of the page, fails.
\<close>

datatype RenderFailure = CannotRead string

record FileInfo =
  shownName :: string
  processed :: string
  requestIdShort :: string

record Dashboard =
  fileInfo :: "FileInfo option"
  statsCards :: "Metadata option"
  toneView :: ToneViewOut
  issuesView :: IssuesViewOut
  transcriptView :: TranscriptViewOut

record AppView =
  analyzeAnother :: bool
  uploadForm :: bool
  errorBox :: "string option"
  loading :: "string option"
  dashboard :: "(RenderFailure + Dashboard) option"

definition fileInfoOf :: "string \<Rightarrow> Metadata \<Rightarrow> FileInfo" where
  "fileInfoOf uploaded m =
     \<lparr>shownName = (if filename m \<noteq> [] then filename m else uploaded),
      processed = timestamp m,
      requestIdShort = take 8 (request_id m)\<rparr>"

definition dashboardOf ::
  "(real \<Rightarrow> real) \<Rightarrow> (real \<Rightarrow> string) \<Rightarrow> string \<Rightarrow> AnalysisResponse \<Rightarrow> RenderFailure + Dashboard" where
  "dashboardOf fl toFixed1 uploaded d =
     (case tone d of
        None \<Rightarrow> Inl (CannotRead ''confidence'')
      | Some t \<Rightarrow>
     (case issues d of
        None \<Rightarrow> Inl (CannotRead ''length'')
      | Some items \<Rightarrow>
     (case transcript d of
        None \<Rightarrow> Inl (CannotRead ''length'')
      | Some ts \<Rightarrow>
          Inr \<lparr>fileInfo = map_option (fileInfoOf uploaded) (metadata d),
               statsCards = metadata d,
               toneView = ToneView fl t,
               issuesView = IssuesView items,
               transcriptView = TranscriptView toFixed1 ts\<rparr>)))"

definition render :: "(real \<Rightarrow> real) \<Rightarrow> (real \<Rightarrow> string) \<Rightarrow> App \<Rightarrow> AppView" where
  "render fl toFixed1 s =
     \<lparr>analyzeAnother = (state s = Success),
      uploadForm = (state s = Idle \<or> state s = Error),
      errorBox = (if (state s = Idle \<or> state s = Error) \<and> app_error s \<noteq> []
                  then Some (app_error s) else None),
      loading = (if state s = Uploading then Some ''Uploading file...''
                 else if state s = Processing then Some ''Processing audio...''
                 else None),
      dashboard = (if state s = Success
                   then map_option (dashboardOf fl toFixed1 (uploadedFileName s)) (data s)
                   else None)\<rparr>"

text \<open>The events of the page: an upload with what its request meets, and a reset.\<close>

datatype AppEvent = Upload File FetchOutcome | ResetApp

fun app_step :: "AppEvent \<Rightarrow> App \<Rightarrow> App list" where
  "app_step (Upload file outcome) s = handleUpload_states file outcome s"
| "app_step ResetApp s = [handleReset_app s]"

text \<open>Every state the page passes through in a sequence of events, the first included.\<close>

fun app_run :: "App \<Rightarrow> AppEvent list \<Rightarrow> App list" where
  "app_run s [] = [s]"
| "app_run s (ev # evs) = s # butlast (app_step ev s) @ app_run (last (app_step ev s)) evs"

section \<open>The analyze operation\<close>

text \<open>
  Modelled from the spec: the error kinds of the backend (section 7).  The backend, which
  answers the \<open>/analyze\<close> request, is not among the sources; what follows of it is written
  from the design.
\<close>

datatype ErrorKind = ValidationError | TranscriptionError | ExtractionError | InternalError

text \<open>
  Modelled from the spec: a failure surfaces the originating error kind and its detail
  message (sections 4.6 and 6).
\<close>

record Failure =
  kind :: ErrorKind
  detail :: string

text \<open>
  Modelled from the spec: what the audio intake accepts (section 4.1): the raw bytes (an
  opaque handle), the declared file name and the byte size.
\<close>

record AudioUpload =
  rawBytes :: nat
  declaredFilename :: string
  byteSize :: nat

text \<open>
  Modelled from the spec: a segment as the transcription service returns it (section 6):
  text, start and end, no speaker.
\<close>

record TimedText =
  heard :: string
  from_s :: real
  to_s :: real

text \<open>
  Modelled from the spec: the stages the orchestrator sequences (sections 4.1 to 4.5), as
  its parameters.  Intake with normalisation, transcription and the two extractions can
  fail; speaker attribution and statistics aggregation are total.  With them come the
  values the orchestrator records for the request: its fresh request id, the time stamp of
  the start of processing, the elapsed time, and the size of the file in megabytes.
\<close>

record Stages =
  intake :: "AudioUpload \<Rightarrow> Failure + nat"
  transcription :: "nat \<Rightarrow> Failure + TimedText list"
  attribution :: "TimedText list \<Rightarrow> TranscriptSegment list"
  issueExtraction :: "TranscriptSegment list \<Rightarrow> Failure + Issue list"
  toneExtraction :: "TranscriptSegment list \<Rightarrow> Failure + Tone"
  aggregation :: "TranscriptSegment list \<Rightarrow> SpeakerStatistics"
  freshRequestId :: string
  startedAt :: string
  elapsedSeconds :: real
  sizeInMb :: "nat \<Rightarrow> real"

text \<open>
  Modelled from the spec: the call analysis orchestrator (section 4.6) and the response it
  assembles (sections 3 and 6).  The stages run in order; any stage failure goes straight
  to \<open>Failed\<close> and surfaces that failure, never a partial result; only from \<open>Completed\<close> is
  the result assembled, as the object of the transcript, the issues, the tone and the
  metadata.
\<close>

definition analyze :: "Stages \<Rightarrow> AudioUpload \<Rightarrow> Failure + AnalysisResponse" where
  "analyze stages upload =
     (case intake stages upload of
        Inl failure \<Rightarrow> Inl failure
      | Inr waveform \<Rightarrow>
     (case transcription stages waveform of
        Inl failure \<Rightarrow> Inl failure
      | Inr heard_segments \<Rightarrow>
     (case issueExtraction stages (attribution stages heard_segments) of
        Inl failure \<Rightarrow> Inl failure
      | Inr found \<Rightarrow>
     (case toneExtraction stages (attribution stages heard_segments) of
        Inl failure \<Rightarrow> Inl failure
      | Inr classified \<Rightarrow>
          Inr \<lparr>transcript = Some (attribution stages heard_segments),
               issues = Some found,
               tone = Some classified,
               metadata = Some
                 \<lparr>filename = declaredFilename upload,
                  file_size_mb = sizeInMb stages (byteSize upload),
                  processing_time_seconds = elapsedSeconds stages,
                  request_id = freshRequestId stages,
                  timestamp = startedAt stages,
                  segment_count = real (length (attribution stages heard_segments)),
                  speaker_statistics =
                    aggregation stages (attribution stages heard_segments)\<rparr>\<rparr>))))"

section \<open>Sample inputs\<close>

definition exactLimitFile :: File where
  "exactLimitFile = \<lparr>name = ''call.mp3'', size_bytes = 26214400, mime_type = ''audio/mpeg'',
                      lastModified = 0, blob = 1\<rparr>"

definition oversizeTextFile :: File where
  "oversizeTextFile = \<lparr>name = ''notes.txt'', size_bytes = 26214401, mime_type = ''text/plain'',
                        lastModified = 0, blob = 9\<rparr>"

definition oversizeFile :: File where
  "oversizeFile = \<lparr>name = ''call.wav'', size_bytes = 26214401, mime_type = ''audio/wav'',
                    lastModified = 0, blob = 2\<rparr>"

definition emptyFile :: File where
  "emptyFile = \<lparr>name = ''call.mp3'', size_bytes = 0, mime_type = ''audio/mpeg'',
                 lastModified = 0, blob = 3\<rparr>"

definition emptyTextFile :: File where
  "emptyTextFile = \<lparr>name = ''notes.txt'', size_bytes = 0, mime_type = ''text/plain'',
                     lastModified = 0, blob = 4\<rparr>"

definition bareNameFile :: File where
  "bareNameFile = \<lparr>name = ''mp3'', size_bytes = 1024, mime_type = [],
                    lastModified = 0, blob = 5\<rparr>"

definition upperCaseFile :: File where
  "upperCaseFile = \<lparr>name = ''Call.MP3'', size_bytes = 1024, mime_type = ''audio/mpeg'',
                     lastModified = 0, blob = 6\<rparr>"

definition twinFile :: File where
  "twinFile = \<lparr>name = ''Call.MP3'', size_bytes = 1024, mime_type = ''text/plain'',
                lastModified = 7, blob = 8\<rparr>"

definition sampleTone :: Tone where
  "sampleTone = \<lparr>label = ''Frustrated'', confidence = 76 / 100,
                  evidence = [''Repeated complaints'', ''Urgent wording'']\<rparr>"

definition unknownTone :: Tone where
  "unknownTone = \<lparr>label = ''Happy'', confidence = 76 / 100, evidence = []\<rparr>"

text \<open>The response the README shows: it has no \<open>metadata\<close>.\<close>

definition sampleResponse :: AnalysisResponse where
  "sampleResponse =
     \<lparr>transcript =
        Some [\<lparr>speaker = ''Agent'', seg_text = ''Hello, how can I help you?'',
               seg_start = 0, seg_end = 21 / 10\<rparr>,
              \<lparr>speaker = ''Customer'', seg_text = ''I haven't received my refund'',
               seg_start = 22 / 10, seg_end = 68 / 10\<rparr>],
      issues =
           Some [\<lparr>title = ''Refund delay'', details = ''Refund not received in 10 days'',
                  issue_evidence = [''I still haven't got my refund'']\<rparr>],
      tone = Some sampleTone,
      metadata = None\<rparr>"

text \<open>The body \<open>{}\<close>.\<close>

definition emptyObject :: AnalysisResponse where
  "emptyObject = \<lparr>transcript = None, issues = None, tone = None, metadata = None\<rparr>"

text \<open>Stages that all succeed, and an upload for them.\<close>

definition sampleStages :: Stages where
  "sampleStages =
     \<lparr>intake = (\<lambda>upload. Inr 0),
      transcription = (\<lambda>waveform. Inr [\<lparr>heard = ''Hello, how can I help you?'',
                                           from_s = 0, to_s = 21 / 10\<rparr>]),
      attribution = map (\<lambda>seg. \<lparr>speaker = ''Agent'', seg_text = heard seg,
                                   seg_start = from_s seg, seg_end = to_s seg\<rparr>),
      issueExtraction = (\<lambda>labelled. Inr []),
      toneExtraction = (\<lambda>labelled. Inr \<lparr>label = ''Calm'', confidence = 9 / 10, evidence = []\<rparr>),
      aggregation = (\<lambda>labelled.
        \<lparr>agent = \<lparr>segments = 1, duration_seconds = 21 / 10, word_count = 6\<rparr>,
         customer = \<lparr>segments = 0, duration_seconds = 0, word_count = 0\<rparr>,
         total_segments = 1, total_duration = 21 / 10\<rparr>),
      freshRequestId = ''0f8fad5b-d9cb-469f'',
      startedAt = ''2024-01-01T00:00:00'',
      elapsedSeconds = 12,
      sizeInMb = (\<lambda>n. real n / 1048576)\<rparr>"

definition sampleUpload :: AudioUpload where
  "sampleUpload = \<lparr>rawBytes = 6, declaredFilename = ''Call.MP3'', byteSize = 1024\<rparr>"

text \<open>The response these stages give for this upload.\<close>

definition assembledResponse :: AnalysisResponse where
  "assembledResponse =
     \<lparr>transcript =
        Some [\<lparr>speaker = ''Agent'', seg_text = ''Hello, how can I help you?'',
               seg_start = 0, seg_end = 21 / 10\<rparr>],
      issues = Some [],
      tone = Some \<lparr>label = ''Calm'', confidence = 9 / 10, evidence = []\<rparr>,
      metadata = Some
        \<lparr>filename = ''Call.MP3'',
         file_size_mb = 1024 / 1048576,
         processing_time_seconds = 12,
         request_id = ''0f8fad5b-d9cb-469f'',
         timestamp = ''2024-01-01T00:00:00'',
         segment_count = 1,
         speaker_statistics =
           \<lparr>agent = \<lparr>segments = 1, duration_seconds = 21 / 10, word_count = 6\<rparr>,
            customer = \<lparr>segments = 0, duration_seconds = 0, word_count = 0\<rparr>,
            total_segments = 1, total_duration = 21 / 10\<rparr>\<rparr>\<rparr>"

definition sampleSession :: "(bool \<times> UploadEvent) list" where
  "sampleSession =
     [(False, Submit),
      (False, Drop (Some emptyTextFile)),
      (False, Submit),
      (False, InputChange (Some upperCaseFile)),
      (True, Submit),
      (False, Submit),
      (False, Reset),
      (False, Submit)]"

section \<open>Facts about the upload form\<close>

lemma maxFileSize_eq: "maxFileSize = 26214400"
  by (simp add: maxFileSize_def)

lemmas fileExt_eval = fileExt_def split_def pop_def toLowerCase_def toLowerChar_def

lemma fileExt_samples:
  "fileExt exactLimitFile = ''.mp3''" "fileExt oversizeFile = ''.wav''"
  "fileExt emptyFile = ''.mp3''" "fileExt emptyTextFile = ''.txt''"
  "fileExt bareNameFile = ''.mp3''" "fileExt upperCaseFile = ''.mp3''"
  "fileExt twinFile = ''.mp3''"
  by (simp_all add: fileExt_eval exactLimitFile_def oversizeFile_def emptyFile_def
        emptyTextFile_def bareNameFile_def upperCaseFile_def twinFile_def)

lemma invalidTypeError_text:
  "invalidTypeError = ''Invalid file type. Allowed: .mp3, .wav, .m4a''"
  by (simp add: invalidTypeError_def allowedTypes_def)

lemma handleFileSelect_accepts:
  "fileExt f \<in> set allowedTypes \<Longrightarrow> size_bytes f \<le> maxFileSize \<Longrightarrow>
     handleFileSelect f st = st\<lparr>error := [], selectedFile := Some f\<rparr>"
  by (simp add: handleFileSelect_def)

subsection \<open>The extension test\<close>

text \<open>
  The text the form tests is the last piece of the name split at its dots.  For a name
  with a dot this is the extension, and the form accepts the file exactly when the
  extension is an allowed one and the size is at most the limit.
\<close>

lemma split_acc_nonempty: "split_acc sep cur s \<noteq> []"
  by (induction s arbitrary: cur) auto

lemma last_split_acc:
  "last (split_acc sep cur s) =
     (if sep \<in> set s then rev (takeWhile (\<lambda>c. c \<noteq> sep) (rev s)) else cur @ s)"
proof (induction s arbitrary: cur)
  case Nil
  show ?case by simp
next
  case (Cons c cs)
  show ?case
  proof (cases "c = sep")
    case True
    then show ?thesis
      using Cons.IH [of "[]"] split_acc_nonempty [of sep "[]" cs]
      by (auto simp: takeWhile_append)
  next
    case False
    then show ?thesis
      using Cons.IH [of "cur @ [c]"]
      by (auto simp: takeWhile_append)
  qed
qed

lemma pop_split: "pop (split sep s) = Some (last (split_acc sep [] s))"
  by (simp add: pop_def split_def split_acc_nonempty)

lemma fileExt_dotted:
  "CHR ''.'' \<in> set (name f) \<Longrightarrow> extension (name f) = Some (fileExt f)"
  by (simp add: fileExt_def extension_def pop_split last_split_acc)

lemma fileExt_undotted:
  "CHR ''.'' \<notin> set (name f) \<Longrightarrow> fileExt f = CHR ''.'' # toLowerCase (name f)"
  by (simp add: fileExt_def pop_split last_split_acc)

lemma handleFileSelect_dotted:
  assumes "CHR ''.'' \<in> set (name f)"
  shows "(selectedFile (handleFileSelect f st) = Some f \<and> error (handleFileSelect f st) = []) =
           (extension (name f) \<in> Some ` set allowedTypes \<and> size_bytes f \<le> maxFileSize)"
    and "extension (name f) \<notin> Some ` set allowedTypes \<Longrightarrow>
           error (handleFileSelect f st) = invalidTypeError \<and>
           selectedFile (handleFileSelect f st) = None"
proof -
  have e: "extension (name f) = Some (fileExt f)"
    using assms by (rule fileExt_dotted)
  have ne: "sizeError \<noteq> []" "invalidTypeError \<noteq> []"
    by (simp_all add: sizeError_def invalidTypeError_def)
  show "(selectedFile (handleFileSelect f st) = Some f \<and> error (handleFileSelect f st) = []) =
           (extension (name f) \<in> Some ` set allowedTypes \<and> size_bytes f \<le> maxFileSize)"
    using e ne by (auto simp: handleFileSelect_def)
  show "extension (name f) \<notin> Some ` set allowedTypes \<Longrightarrow>
           error (handleFileSelect f st) = invalidTypeError \<and>
           selectedFile (handleFileSelect f st) = None"
    using e by (auto simp: handleFileSelect_def)
qed

lemma extension_samples:
  "extension (name exactLimitFile) = Some ''.mp3''"
  "extension (name oversizeFile) = Some ''.wav''"
  "extension (name oversizeTextFile) = Some ''.txt''"
  by (simp_all add: extension_def toLowerCase_def toLowerChar_def exactLimitFile_def
        oversizeFile_def oversizeTextFile_def)

subsection \<open>The size bound\<close>

text \<open>
  C1, as the code has it: the bound of 26,214,400 bytes is inclusive.  A file of more than
  26,214,400 bytes is rejected and no file remains selected; where its name has an
  extension, the error is the size error when the extension is an allowed one and the
  invalid-type error otherwise (the extension is tested first).  A file of at most
  26,214,400 bytes with an allowed extension is not rejected for its size: the error is
  cleared and the file is selected.
\<close>

theorem size_limit_inclusive:
  "(26214400 < size_bytes f \<longrightarrow>
      selectedFile (handleFileSelect f st) = None \<and>
      (extension (name f) \<in> Some ` set allowedTypes \<longrightarrow>
         error (handleFileSelect f st) = sizeError) \<and>
      (extension (name f) \<noteq> None \<and> extension (name f) \<notin> Some ` set allowedTypes \<longrightarrow>
         error (handleFileSelect f st) = invalidTypeError)) \<and>
   (size_bytes f \<le> 26214400 \<and> extension (name f) \<in> Some ` set allowedTypes \<longrightarrow>
      error (handleFileSelect f st) = [] \<and>
      selectedFile (handleFileSelect f st) = Some f)"
proof (cases "CHR ''.'' \<in> set (name f)")
  case True
  then have "extension (name f) = Some (fileExt f)"
    by (rule fileExt_dotted)
  then show ?thesis
    by (auto simp: handleFileSelect_def maxFileSize_eq)
next
  case False
  then have "extension (name f) = None"
    by (simp add: extension_def)
  then show ?thesis
    by (auto simp: handleFileSelect_def maxFileSize_eq)
qed

theorem size_limit_inclusive_witness:
  "26214400 < size_bytes oversizeFile \<and>
   extension (name oversizeFile) = Some ''.wav'' \<and>
   selectedFile (handleFileSelect oversizeFile initialUploadForm) = None \<and>
   error (handleFileSelect oversizeFile initialUploadForm) = ''File size exceeds 25 MB limit'' \<and>
   26214400 < size_bytes oversizeTextFile \<and>
   extension (name oversizeTextFile) = Some ''.txt'' \<and>
   selectedFile (handleFileSelect oversizeTextFile initialUploadForm) = None \<and>
   error (handleFileSelect oversizeTextFile initialUploadForm) =
     ''Invalid file type. Allowed: .mp3, .wav, .m4a'' \<and>
   size_bytes exactLimitFile \<le> 26214400 \<and>
   extension (name exactLimitFile) = Some ''.mp3'' \<and>
   error (handleFileSelect exactLimitFile initialUploadForm) = [] \<and>
   selectedFile (handleFileSelect exactLimitFile initialUploadForm) = Some exactLimitFile"
proof -
  have big: "26214400 < size_bytes oversizeFile" "26214400 < size_bytes oversizeTextFile"
    by (simp_all add: oversizeFile_def oversizeTextFile_def)
  have small: "size_bytes exactLimitFile \<le> 26214400"
    by (simp add: exactLimitFile_def)
  have ok: "extension (name oversizeFile) \<in> Some ` set allowedTypes"
    "extension (name exactLimitFile) \<in> Some ` set allowedTypes"
    by (simp_all add: extension_samples allowedTypes_def)
  have bad: "extension (name oversizeTextFile) \<noteq> None"
    "extension (name oversizeTextFile) \<notin> Some ` set allowedTypes"
    by (simp_all add: extension_samples allowedTypes_def)
  from size_limit_inclusive [of oversizeFile initialUploadForm] big ok
  have a: "selectedFile (handleFileSelect oversizeFile initialUploadForm) = None \<and>
           error (handleFileSelect oversizeFile initialUploadForm) = sizeError"
    by blast
  from size_limit_inclusive [of oversizeTextFile initialUploadForm] big bad
  have b: "selectedFile (handleFileSelect oversizeTextFile initialUploadForm) = None \<and>
           error (handleFileSelect oversizeTextFile initialUploadForm) = invalidTypeError"
    by blast
  from size_limit_inclusive [of exactLimitFile initialUploadForm] small ok
  have c: "error (handleFileSelect exactLimitFile initialUploadForm) = [] \<and>
           selectedFile (handleFileSelect exactLimitFile initialUploadForm) = Some exactLimitFile"
    by blast
  show ?thesis
    using a b c big small extension_samples invalidTypeError_text
    by (simp add: sizeError_def)
qed

text \<open>
  With the bound read as exclusive, the file of exactly 26,214,400 bytes would have to be
  rejected with the size error; the form selects it.
\<close>

theorem size_limit_counterexample:
  "size_bytes exactLimitFile \<ge> 26214400 \<and>
   \<not> (error (handleFileSelect exactLimitFile initialUploadForm) = sizeError \<and>
       selectedFile (handleFileSelect exactLimitFile initialUploadForm) = None)"
proof -
  have "fileExt exactLimitFile \<in> set allowedTypes"
    by (simp add: fileExt_samples allowedTypes_def)
  moreover have "size_bytes exactLimitFile \<le> maxFileSize"
    by (simp add: exactLimitFile_def maxFileSize_def)
  ultimately have "handleFileSelect exactLimitFile initialUploadForm =
      initialUploadForm\<lparr>error := [], selectedFile := Some exactLimitFile\<rparr>"
    by (rule handleFileSelect_accepts)
  then show ?thesis by (simp add: exactLimitFile_def)
qed

subsection \<open>Empty files\<close>

text \<open>
  C2, as the code has it: the form does not look at whether a file is empty.  A file of
  size 0 is decided by its extension alone: with an allowed extension the error is cleared
  and the file is selected, otherwise the invalid-type error is set and no file remains
  selected.
\<close>

theorem empty_file_decided_by_extension:
  assumes "size_bytes f = 0"
  shows "(fileExt f \<in> set allowedTypes \<longrightarrow>
            error (handleFileSelect f st) = [] \<and> selectedFile (handleFileSelect f st) = Some f) \<and>
         (fileExt f \<notin> set allowedTypes \<longrightarrow>
            error (handleFileSelect f st) = invalidTypeError \<and>
            selectedFile (handleFileSelect f st) = None)"
  using assms by (simp add: handleFileSelect_def)

theorem empty_file_decided_by_extension_witness:
  "size_bytes emptyFile = 0 \<and> fileExt emptyFile \<in> set allowedTypes \<and>
   error (handleFileSelect emptyFile initialUploadForm) = [] \<and>
   selectedFile (handleFileSelect emptyFile initialUploadForm) = Some emptyFile \<and>
   size_bytes emptyTextFile = 0 \<and> fileExt emptyTextFile \<notin> set allowedTypes \<and>
   error (handleFileSelect emptyTextFile initialUploadForm) =
     ''Invalid file type. Allowed: .mp3, .wav, .m4a'' \<and>
   selectedFile (handleFileSelect emptyTextFile initialUploadForm) = None"
proof -
  have e1: "size_bytes emptyFile = 0" by (simp add: emptyFile_def)
  have e2: "size_bytes emptyTextFile = 0" by (simp add: emptyTextFile_def)
  have x1: "fileExt emptyFile \<in> set allowedTypes"
    by (simp add: fileExt_samples allowedTypes_def)
  have x2: "fileExt emptyTextFile \<notin> set allowedTypes"
    by (simp add: fileExt_samples allowedTypes_def)
  from empty_file_decided_by_extension [OF e1, of initialUploadForm] x1
  have a: "error (handleFileSelect emptyFile initialUploadForm) = [] \<and>
           selectedFile (handleFileSelect emptyFile initialUploadForm) = Some emptyFile"
    by blast
  from empty_file_decided_by_extension [OF e2, of initialUploadForm] x2
  have b: "error (handleFileSelect emptyTextFile initialUploadForm) = invalidTypeError \<and>
           selectedFile (handleFileSelect emptyTextFile initialUploadForm) = None"
    by blast
  show ?thesis using a b e1 e2 x1 x2 invalidTypeError_text by simp
qed

text \<open>
  The empty file \<open>call.mp3\<close> is not rejected: no error is set and it becomes the selected
  file.
\<close>

theorem empty_file_counterexample:
  "size_bytes emptyFile = 0 \<and> fileExt emptyFile \<in> set allowedTypes \<and>
   \<not> (error (handleFileSelect emptyFile initialUploadForm) \<noteq> [] \<and>
       selectedFile (handleFileSelect emptyFile initialUploadForm) = None)"
proof -
  have "fileExt emptyFile \<in> set allowedTypes"
    by (simp add: fileExt_samples allowedTypes_def)
  moreover have "size_bytes emptyFile = 0"
    by (simp add: emptyFile_def)
  ultimately show ?thesis
    by (simp add: handleFileSelect_def)
qed

subsection \<open>The decision reads the name and the size only\<close>

text \<open>
  C10: for two files of equal name and equal byte size, whatever their bytes, MIME type
  and modification time, \<open>handleFileSelect\<close> decides alike from the same state: the same
  error message, both rejected or both selected (each as itself), the rest of the state
  the same.
\<close>

theorem decision_from_name_and_size:
  assumes "name f = name g" and "size_bytes f = size_bytes g"
  shows "error (handleFileSelect f st) = error (handleFileSelect g st) \<and>
         (selectedFile (handleFileSelect f st) = None) = (selectedFile (handleFileSelect g st) = None) \<and>
         (selectedFile (handleFileSelect f st) = None \<or> selectedFile (handleFileSelect f st) = Some f) \<and>
         (selectedFile (handleFileSelect g st) = None \<or> selectedFile (handleFileSelect g st) = Some g) \<and>
         isDragging (handleFileSelect f st) = isDragging (handleFileSelect g st)"
proof -
  have "fileExt f = fileExt g"
    using assms(1) by (simp add: fileExt_def)
  then show ?thesis
    using assms(2) by (simp add: handleFileSelect_def)
qed

theorem decision_from_name_and_size_witness:
  "name upperCaseFile = name twinFile \<and> size_bytes upperCaseFile = size_bytes twinFile \<and>
   blob upperCaseFile \<noteq> blob twinFile \<and>
   error (handleFileSelect upperCaseFile initialUploadForm) = [] \<and>
   error (handleFileSelect twinFile initialUploadForm) = [] \<and>
   selectedFile (handleFileSelect upperCaseFile initialUploadForm) = Some upperCaseFile \<and>
   selectedFile (handleFileSelect twinFile initialUploadForm) = Some twinFile"
proof -
  have n: "name upperCaseFile = name twinFile"
    by (simp add: upperCaseFile_def twinFile_def)
  have z: "size_bytes upperCaseFile = size_bytes twinFile"
    by (simp add: upperCaseFile_def twinFile_def)
  have b: "blob upperCaseFile \<noteq> blob twinFile"
    by (simp add: upperCaseFile_def twinFile_def)
  have "fileExt upperCaseFile \<in> set allowedTypes"
    by (simp add: fileExt_samples allowedTypes_def)
  moreover have "size_bytes upperCaseFile \<le> maxFileSize"
    by (simp add: upperCaseFile_def maxFileSize_def)
  ultimately have u: "handleFileSelect upperCaseFile initialUploadForm =
      initialUploadForm\<lparr>error := [], selectedFile := Some upperCaseFile\<rparr>"
    by (rule handleFileSelect_accepts)
  show ?thesis
    using decision_from_name_and_size [OF n z, of initialUploadForm] n z b u
    by auto
qed

subsection \<open>Submitting\<close>

lemma handleFileSelect_selected:
  "selectedFile (handleFileSelect f st) = Some g \<Longrightarrow> g = f \<and> validated f"
  by (simp add: handleFileSelect_def validated_def split: if_splits)

lemma handleFileSelect_validated:
  "\<forall>g. selectedFile (handleFileSelect f st) = Some g \<longrightarrow> validated g"
  using handleFileSelect_selected by blast

lemma step_keeps_validated:
  assumes "\<forall>f. selectedFile st = Some f \<longrightarrow> validated f"
  shows "\<forall>f. selectedFile (fst (step p ev st)) = Some f \<longrightarrow> validated f"
proof (cases ev)
  case (InputChange chosen)
  show ?thesis
  proof (cases chosen)
    case None
    with InputChange assms show ?thesis by (simp add: handleInputChange_def)
  next
    case (Some f)
    with InputChange show ?thesis
      by (simp add: handleInputChange_def handleFileSelect_validated)
  qed
next
  case DragOver
  with assms show ?thesis by (simp add: handleDragOver_def)
next
  case DragLeave
  with assms show ?thesis by (simp add: handleDragLeave_def)
next
  case (Drop dropped)
  show ?thesis
  proof (cases dropped)
    case None
    with Drop assms show ?thesis by (simp add: handleDrop_def)
  next
    case (Some f)
    with Drop show ?thesis
      by (simp add: handleDrop_def handleFileSelect_validated)
  qed
next
  case Submit
  with assms show ?thesis by simp
next
  case Reset
  then show ?thesis by (simp add: handleReset_def)
qed

lemma step_calls:
  "snd (step p ev st) = (if ev = Submit then handleSubmit p st else [])"
  by (cases ev) simp_all

lemma handleSubmit_calls:
  "handleSubmit p st = (if p \<or> selectedFile st = None then [] else [the (selectedFile st)])"
  by (cases "selectedFile st") (simp_all add: handleSubmit_def)

lemma step_guarded:
  assumes "\<forall>f. selectedFile st = Some f \<longrightarrow> validated f"
  shows "(p \<or> selectedFile st = None \<longrightarrow> snd (step p ev st) = []) \<and>
         (\<forall>f \<in> set (snd (step p ev st)). \<not> p \<and> selectedFile st = Some f \<and> validated f)"
proof (cases "p \<or> selectedFile st = None")
  case True
  then show ?thesis by (simp add: step_calls handleSubmit_calls)
next
  case False
  then obtain f where f: "selectedFile st = Some f" by blast
  with assms have "validated f" by blast
  with False f show ?thesis by (simp add: step_calls handleSubmit_calls)
qed

lemma interact_guarded:
  assumes "\<forall>f. selectedFile st = Some f \<longrightarrow> validated f"
    and "(p, st', calls) \<in> set (interact st evs)"
  shows "(p \<or> selectedFile st' = None \<longrightarrow> calls = []) \<and>
         (\<forall>f \<in> set calls. \<not> p \<and> selectedFile st' = Some f \<and> validated f)"
  using assms
proof (induction evs arbitrary: st)
  case Nil
  then show ?case by simp
next
  case (Cons e evs)
  obtain q ev where e: "e = (q, ev)" by (cases e)
  from Cons.prems(2) e
  have "(p = q \<and> st' = st \<and> calls = snd (step q ev st)) \<or>
        (p, st', calls) \<in> set (interact (fst (step q ev st)) evs)"
    by simp
  then show ?case
  proof
    assume "p = q \<and> st' = st \<and> calls = snd (step q ev st)"
    then show ?thesis
      using step_guarded [OF Cons.prems(1), of q ev] by blast
  next
    assume later: "(p, st', calls) \<in> set (interact (fst (step q ev st)) evs)"
    from Cons.IH [OF step_keeps_validated [OF Cons.prems(1)] later] show ?thesis .
  qed
qed

text \<open>
  C9: in every interaction sequence that starts from the initial form, whatever the value
  of \<open>isProcessing\<close> at each event, an event that arrives while \<open>isProcessing\<close> is true or
  while no file is selected makes no \<open>onUpload\<close> call; and every \<open>onUpload\<close> call is made
  with \<open>isProcessing\<close> false, on the selected file, which \<open>handleFileSelect\<close> has accepted.
\<close>

theorem no_upload_unless_ready:
  assumes "(p, st, calls) \<in> set (interact initialUploadForm evs)"
  shows "(p \<or> selectedFile st = None \<longrightarrow> calls = []) \<and>
         (\<forall>f \<in> set calls. \<not> p \<and> selectedFile st = Some f \<and> validated f)"
proof -
  have "\<forall>f. selectedFile initialUploadForm = Some f \<longrightarrow> validated f"
    by (simp add: initialUploadForm_def)
  from interact_guarded [OF this assms] show ?thesis .
qed

lemma upperCaseFile_selected:
  "handleFileSelect upperCaseFile st = st\<lparr>error := [], selectedFile := Some upperCaseFile\<rparr>"
proof -
  have "fileExt upperCaseFile \<in> set allowedTypes"
    by (simp add: fileExt_samples allowedTypes_def)
  moreover have "size_bytes upperCaseFile \<le> maxFileSize"
    by (simp add: upperCaseFile_def maxFileSize_def)
  ultimately show ?thesis
    by (rule handleFileSelect_accepts)
qed

lemma emptyTextFile_rejected:
  "handleFileSelect emptyTextFile st = st\<lparr>error := invalidTypeError, selectedFile := None\<rparr>"
proof -
  have "fileExt emptyTextFile \<notin> set allowedTypes"
    by (simp add: fileExt_samples allowedTypes_def)
  then show ?thesis
    by (simp add: handleFileSelect_def)
qed

theorem no_upload_unless_ready_witness:
  "(True, \<lparr>selectedFile = Some upperCaseFile, error = [], isDragging = False\<rparr>, [])
     \<in> set (interact initialUploadForm sampleSession) \<and>
   (False, \<lparr>selectedFile = Some upperCaseFile, error = [], isDragging = False\<rparr>, [upperCaseFile])
     \<in> set (interact initialUploadForm sampleSession) \<and>
   (False, \<lparr>selectedFile = None, error = [], isDragging = False\<rparr>, [])
     \<in> set (interact initialUploadForm sampleSession) \<and>
   validated upperCaseFile"
proof -
  have log: "interact initialUploadForm sampleSession =
     [(False, \<lparr>selectedFile = None, error = [], isDragging = False\<rparr>, []),
      (False, \<lparr>selectedFile = None, error = [], isDragging = False\<rparr>, []),
      (False, \<lparr>selectedFile = None, error = invalidTypeError, isDragging = False\<rparr>, []),
      (False, \<lparr>selectedFile = None, error = invalidTypeError, isDragging = False\<rparr>, []),
      (True, \<lparr>selectedFile = Some upperCaseFile, error = [], isDragging = False\<rparr>, []),
      (False, \<lparr>selectedFile = Some upperCaseFile, error = [], isDragging = False\<rparr>, [upperCaseFile]),
      (False, \<lparr>selectedFile = Some upperCaseFile, error = [], isDragging = False\<rparr>, []),
      (False, \<lparr>selectedFile = None, error = [], isDragging = False\<rparr>, [])]"
    apply (simp add: sampleSession_def)
    apply (simp add: initialUploadForm_def handleInputChange_def handleDrop_def
        handleSubmit_def handleReset_def upperCaseFile_selected emptyTextFile_rejected)
    done
  have m: "(False, \<lparr>selectedFile = Some upperCaseFile, error = [], isDragging = False\<rparr>, [upperCaseFile])
     \<in> set (interact initialUploadForm sampleSession)"
    unfolding log by simp
  from no_upload_unless_ready [OF m] have v: "validated upperCaseFile"
    by simp
  show ?thesis
    using m v unfolding log by simp
qed

subsection \<open>A name without a dot\<close>

text \<open>
  C6, on the file named \<open>mp3\<close>: the name has no dot and so no extension, yet the last
  piece of the split is the whole name, the text tested is \<open>.mp3\<close>, and the form clears
  the error and selects the file instead of setting the invalid-type error.
\<close>

theorem bare_name_accepted:
  "extension (name bareNameFile) = None \<and>
   error (handleFileSelect bareNameFile initialUploadForm) = [] \<and>
   selectedFile (handleFileSelect bareNameFile initialUploadForm) = Some bareNameFile"
proof -
  have "fileExt bareNameFile \<in> set allowedTypes"
    by (simp add: fileExt_samples allowedTypes_def)
  moreover have "size_bytes bareNameFile \<le> maxFileSize"
    by (simp add: bareNameFile_def maxFileSize_def)
  ultimately have "handleFileSelect bareNameFile initialUploadForm =
      initialUploadForm\<lparr>error := [], selectedFile := Some bareNameFile\<rparr>"
    by (rule handleFileSelect_accepts)
  moreover have "extension (name bareNameFile) = None"
    by (simp add: extension_def bareNameFile_def)
  ultimately show ?thesis by simp
qed

section \<open>Facts about the views\<close>

subsection \<open>The confidence percentage\<close>

lemma Math_round_bounds:
  assumes "0 \<le> x" and "x \<le> 100"
  shows "0 \<le> Math_round x \<and> Math_round x \<le> 100"
proof -
  have "0 \<le> \<lfloor>x + 1 / 2\<rfloor>"
    using assms(1) by simp
  moreover have "\<lfloor>x + 1 / 2\<rfloor> \<le> 100"
  proof -
    have "x + 1 / 2 < 101" using assms(2) by simp
    then have "\<lfloor>x + 1 / 2\<rfloor> < 101" by (simp add: floor_less_iff)
    then show ?thesis by simp
  qed
  ultimately show ?thesis by (simp add: Math_round_def)
qed

text \<open>
  C8: rounding to the nearest double is monotone and leaves the doubles 0 and 100 as they
  are.  For every such rounding and every tone whose confidence lies in [0,1], the
  percentage \<open>Math.round(tone.confidence * 100)\<close> is an integer from 0 to 100, and
  \<open>ToneView\<close> shows this one number as the percentage of the heading, as the percentage
  of the caption and as the width of the progress bar.
\<close>

theorem confidence_percent_range:
  assumes "mono fl" and "fl 0 = 0" and "fl 100 = 100"
    and "0 \<le> confidence t" and "confidence t \<le> 1"
  shows "0 \<le> confidencePercent fl t \<and> confidencePercent fl t \<le> 100 \<and>
         percentHeading (ToneView fl t) = confidencePercent fl t \<and>
         percentCaption (ToneView fl t) = confidencePercent fl t \<and>
         barWidth (ToneView fl t) = confidencePercent fl t"
proof -
  have lo: "0 \<le> confidence t * 100" using assms(4) by simp
  have hi: "confidence t * 100 \<le> 100" using assms(5) by simp
  have "fl 0 \<le> fl (confidence t * 100)"
    using assms(1) lo by (rule monoD)
  moreover have "fl (confidence t * 100) \<le> fl 100"
    using assms(1) hi by (rule monoD)
  ultimately have "0 \<le> fl (confidence t * 100)" "fl (confidence t * 100) \<le> 100"
    using assms(2,3) by simp_all
  then have "0 \<le> confidencePercent fl t \<and> confidencePercent fl t \<le> 100"
    unfolding confidencePercent_def by (rule Math_round_bounds)
  then show ?thesis by (simp add: ToneView_def)
qed

theorem confidence_percent_range_witness:
  "mono (\<lambda>x::real. x) \<and> 0 \<le> confidence sampleTone \<and> confidence sampleTone \<le> 1 \<and>
   confidencePercent (\<lambda>x. x) sampleTone = 76 \<and>
   percentHeading (ToneView (\<lambda>x. x) sampleTone) = 76 \<and>
   percentCaption (ToneView (\<lambda>x. x) sampleTone) = 76 \<and>
   barWidth (ToneView (\<lambda>x. x) sampleTone) = 76"
proof -
  have m: "mono (\<lambda>x::real. x)" by (simp add: mono_def)
  have c: "0 \<le> confidence sampleTone" "confidence sampleTone \<le> 1"
    by (simp_all add: sampleTone_def)
  have p: "confidencePercent (\<lambda>x. x) sampleTone = 76"
    by (simp add: confidencePercent_def Math_round_def sampleTone_def)
  from confidence_percent_range [OF m _ _ c, of ] p m c
  show ?thesis by simp
qed

subsection \<open>Labels outside the enumeration\<close>

text \<open>
  C4, as the code has it: for a tone whose label is none of Calm, Frustrated, Angry and
  Anxious, and is not the name of a property an object literal inherits, \<open>ToneView\<close> shows
  the label's own text unchanged in the badge and falls back to the treatment of Calm
  (\<open>toneConfig[tone.label] || toneConfig.Calm\<close>).
\<close>

theorem unknown_label_rendering:
  assumes "label t \<notin> {''Calm'', ''Frustrated'', ''Angry'', ''Anxious''}"
    and "label t \<notin> set objectPrototypeKeys"
  shows "badgeText (ToneView fl t) = label t \<and> config (ToneView fl t) = calmStyle"
proof -
  have "map_of toneConfig (label t) = None"
    using assms(1) by (simp add: toneConfig_def)
  then show ?thesis
    using assms(2) by (simp add: ToneView_def getProperty_def)
qed

theorem unknown_label_rendering_witness:
  "label unknownTone \<notin> {''Calm'', ''Frustrated'', ''Angry'', ''Anxious''} \<and>
   label unknownTone \<notin> set objectPrototypeKeys \<and>
   badgeText (ToneView (\<lambda>x. x) unknownTone) = ''Happy'' \<and>
   config (ToneView (\<lambda>x. x) unknownTone) = calmStyle"
proof -
  have l: "label unknownTone \<notin> {''Calm'', ''Frustrated'', ''Angry'', ''Anxious''}"
    by (simp add: unknownTone_def)
  have k: "label unknownTone \<notin> set objectPrototypeKeys"
    by (simp add: unknownTone_def objectPrototypeKeys_def)
  have n: "label unknownTone = ''Happy''"
    by (simp add: unknownTone_def)
  from unknown_label_rendering [OF l k, of "\<lambda>x. x"] l k n
  show ?thesis by simp
qed

text \<open>
  The label \<open>Happy\<close> is outside the enumeration, and the treatment rendered for it is the
  one \<open>toneConfig\<close> defines for Calm.
\<close>

theorem unknown_label_counterexample:
  "label unknownTone \<notin> {''Calm'', ''Frustrated'', ''Angry'', ''Anxious''} \<and>
   (''Calm'', config (ToneView (\<lambda>x. x) unknownTone)) \<in> set toneConfig"
proof -
  have "map_of toneConfig (label unknownTone) = None"
    by (simp add: toneConfig_def unknownTone_def)
  moreover have "label unknownTone \<notin> set objectPrototypeKeys"
    by (simp add: unknownTone_def objectPrototypeKeys_def)
  ultimately have "config (ToneView (\<lambda>x. x) unknownTone) = calmStyle"
    by (simp add: ToneView_def getProperty_def)
  then show ?thesis
    by (simp add: toneConfig_def unknownTone_def)
qed

subsection \<open>Empty results\<close>

text \<open>
  C7: for a transcript of zero segments \<open>TranscriptView\<close> renders the empty state
  \<open>No transcript available\<close>, and for an empty issue list \<open>IssuesView\<close> renders the empty
  state \<open>No issues found\<close>; both views are functions defined on every list, the empty one
  included.
\<close>

theorem empty_views:
  "TranscriptView toFixed1 [] = TranscriptEmpty ''No transcript available'' \<and>
   IssuesView [] = IssuesEmpty ''No issues found''"
  by (simp add: TranscriptView_def IssuesView_def)

section \<open>Facts about the page\<close>

lemma handleUpload_eq:
  "handleUpload file outcome s =
     handleUpload_settled outcome (handleUpload_sent (handleUpload_start file s))"
  by (simp add: handleUpload_def handleUpload_states_def)

lemma handleUpload_ok:
  "handleUpload file (ResponseOk (Resolves body)) s =
     \<lparr>state = Success, data = body, app_error = [], uploadedFileName = name file\<rparr>"
  by (simp add: handleUpload_eq handleUpload_settled_def handleUpload_sent_def
        handleUpload_start_def)

lemma handleUpload_failed:
  assumes "request outcome = Inl err"
  shows "handleUpload file outcome s =
     \<lparr>state = Error, data = None, app_error = errorMessage err, uploadedFileName = name file\<rparr>"
  using assms
  by (simp add: handleUpload_eq handleUpload_settled_def handleUpload_sent_def
        handleUpload_start_def)

lemma requestFails_iff: "requestFails outcome \<longleftrightarrow> (\<exists>err. request outcome = Inl err)"
proof (cases outcome)
  case (FetchRejects t)
  then show ?thesis by simp
next
  case (ResponseOk body)
  then show ?thesis by (cases body) simp_all
next
  case (ResponseNotOk status body)
  show ?thesis
  proof (cases "case body of Rejects t \<Rightarrow> Detail ''Unknown error'' | Resolves errorData \<Rightarrow> errorData")
    case (Detail d)
    with ResponseNotOk show ?thesis by simp
  next
    case NoDetail
    with ResponseNotOk show ?thesis by simp
  next
    case (NullBody m)
    with ResponseNotOk show ?thesis by simp
  qed
qed

lemma success_only_when_ok:
  assumes "state (handleUpload file outcome s) = Success"
  shows "\<exists>r. outcome = ResponseOk (Resolves r)"
proof (cases "requestFails outcome")
  case True
  then obtain err where "request outcome = Inl err"
    using requestFails_iff by blast
  from handleUpload_failed [OF this, of "file" s] assms show ?thesis by simp
next
  case False
  then show ?thesis
    by (cases outcome rule: requestFails.cases) simp_all
qed

subsection \<open>The fields of a successful response\<close>

text \<open>
  The page takes the parsed body of every ok response as a success and stores it as it
  is: the body \<open>null\<close> leaves the data null and no dashboard, and a body without a tone,
  such as \<open>{}\<close>, makes the render of the dashboard fail.  For a body of the declared shape
  the dashboard is rendered, with the file header and the stats cards exactly when the
  body has the optional \<open>metadata\<close>.
\<close>

lemma success_stores_body:
  "state (handleUpload file outcome s) = Success \<longleftrightarrow> (\<exists>body. outcome = ResponseOk (Resolves body))"
  "outcome = ResponseOk (Resolves body) \<Longrightarrow> data (handleUpload file outcome s) = body"
  using success_only_when_ok [of "file" outcome s] by (auto simp: handleUpload_ok)

lemma null_body_shows_nothing:
  "dashboard (render fl toFixed1 (handleUpload file (ResponseOk (Resolves None)) s)) = None"
  by (simp add: handleUpload_ok render_def)

lemma empty_object_fails_to_render:
  "dashboard (render fl toFixed1 (handleUpload file (ResponseOk (Resolves (Some emptyObject))) s)) =
     Some (Inl (CannotRead ''confidence''))"
  by (simp add: handleUpload_ok render_def dashboardOf_def emptyObject_def)

lemma declared_shape_renders:
  assumes "transcript r = Some ts" and "issues r = Some items" and "tone r = Some t"
  shows "dashboard (render fl toFixed1 (handleUpload file (ResponseOk (Resolves (Some r))) s)) =
           Some (Inr \<lparr>fileInfo = map_option (fileInfoOf (name file)) (metadata r),
                      statsCards = metadata r,
                      toneView = ToneView fl t,
                      issuesView = IssuesView items,
                      transcriptView = TranscriptView toFixed1 ts\<rparr>)"
  using assms by (simp add: handleUpload_ok render_def dashboardOf_def)

lemma metadata_optional_for_the_page:
  "declaredShape sampleResponse" "metadata sampleResponse = None"
  "state (handleUpload file (ResponseOk (Resolves (Some sampleResponse))) s) = Success"
  "data (handleUpload file (ResponseOk (Resolves (Some sampleResponse))) s) = Some sampleResponse"
  by (simp_all add: handleUpload_ok sampleResponse_def declaredShape_def)

lemma analyze_success:
  assumes "analyze stages upload = Inr r"
  shows "\<exists>waveform heard_segments found classified.
           intake stages upload = Inr waveform \<and>
           transcription stages waveform = Inr heard_segments \<and>
           issueExtraction stages (attribution stages heard_segments) = Inr found \<and>
           toneExtraction stages (attribution stages heard_segments) = Inr classified \<and>
           transcript r = Some (attribution stages heard_segments) \<and>
           issues r = Some found \<and>
           tone r = Some classified \<and>
           (\<exists>m. metadata r = Some m \<and> filename m = declaredFilename upload \<and>
                request_id m = freshRequestId stages)"
  using assms by (auto simp: analyze_def split: sum.splits)

text \<open>
  C3, on the analyze operation as the design describes it: every successful response
  carries all four fields \<open>transcript\<close>, \<open>issues\<close>, \<open>tone\<close> and \<open>metadata\<close>, the
  metadata included.  Taken by the page, such a response ends the upload in the state
  \<open>success\<close>, is stored as it is, and is rendered as a dashboard with the file header and
  the stats cards made from its metadata.
\<close>

theorem analyze_success_has_all_fields:
  assumes "analyze stages upload = Inr r"
  shows "transcript r \<noteq> None \<and> issues r \<noteq> None \<and> tone r \<noteq> None \<and> metadata r \<noteq> None \<and>
         state (handleUpload file (ResponseOk (Resolves (Some r))) s) = Success \<and>
         data (handleUpload file (ResponseOk (Resolves (Some r))) s) = Some r \<and>
         (\<exists>d. dashboard (render fl toFixed1 (handleUpload file (ResponseOk (Resolves (Some r))) s)) =
                 Some (Inr d) \<and>
               fileInfo d \<noteq> None \<and> statsCards d = metadata r)"
proof -
  from analyze_success [OF assms] obtain ts items t m
    where f: "transcript r = Some ts" "issues r = Some items" "tone r = Some t"
      "metadata r = Some m"
    by blast
  from declared_shape_renders [OF f(1,2,3), of fl toFixed1 "file" s] f show ?thesis
    by (simp add: handleUpload_ok)
qed

theorem analyze_success_has_all_fields_witness:
  "analyze sampleStages sampleUpload = Inr assembledResponse \<and>
   transcript assembledResponse \<noteq> None \<and> issues assembledResponse \<noteq> None \<and>
   tone assembledResponse \<noteq> None \<and> metadata assembledResponse \<noteq> None \<and>
   state (handleUpload upperCaseFile (ResponseOk (Resolves (Some assembledResponse))) initialApp) =
     Success \<and>
   data (handleUpload upperCaseFile (ResponseOk (Resolves (Some assembledResponse))) initialApp) =
     Some assembledResponse \<and>
   dashboard (render (\<lambda>x. x) (\<lambda>x. [])
     (handleUpload upperCaseFile (ResponseOk (Resolves (Some assembledResponse))) initialApp)) =
     Some (Inr
       \<lparr>fileInfo = Some \<lparr>shownName = ''Call.MP3'', processed = ''2024-01-01T00:00:00'',
                          requestIdShort = ''0f8fad5b''\<rparr>,
        statsCards = metadata assembledResponse,
        toneView = ToneView (\<lambda>x. x) \<lparr>label = ''Calm'', confidence = 9 / 10, evidence = []\<rparr>,
        issuesView = IssuesEmpty ''No issues found'',
        transcriptView = TranscriptView (\<lambda>x. [])
          [\<lparr>speaker = ''Agent'', seg_text = ''Hello, how can I help you?'',
            seg_start = 0, seg_end = 21 / 10\<rparr>]\<rparr>)"
proof -
  have r: "analyze sampleStages sampleUpload = Inr assembledResponse"
    by (simp add: analyze_def sampleStages_def sampleUpload_def assembledResponse_def)
  have h: "dashboard (render (\<lambda>x. x) (\<lambda>x. [])
     (handleUpload upperCaseFile (ResponseOk (Resolves (Some assembledResponse))) initialApp)) =
     Some (Inr
       \<lparr>fileInfo = Some \<lparr>shownName = ''Call.MP3'', processed = ''2024-01-01T00:00:00'',
                          requestIdShort = ''0f8fad5b''\<rparr>,
        statsCards = metadata assembledResponse,
        toneView = ToneView (\<lambda>x. x) \<lparr>label = ''Calm'', confidence = 9 / 10, evidence = []\<rparr>,
        issuesView = IssuesEmpty ''No issues found'',
        transcriptView = TranscriptView (\<lambda>x. [])
          [\<lparr>speaker = ''Agent'', seg_text = ''Hello, how can I help you?'',
            seg_start = 0, seg_end = 21 / 10\<rparr>]\<rparr>)"
    by (simp add: handleUpload_ok render_def dashboardOf_def assembledResponse_def fileInfoOf_def
          IssuesView_def upperCaseFile_def)
  from analyze_success_has_all_fields
    [OF r, of upperCaseFile initialApp "\<lambda>x. x" "\<lambda>x. []"] r h
  show ?thesis by simp
qed

subsection \<open>A failed request\<close>

lemma handleUpload_states_data:
  assumes "s' \<in> set (handleUpload_states file outcome s)"
  shows "data s' = None \<or> (state s' = Success \<and> \<not> requestFails outcome)"
proof (cases "request outcome")
  case (Inl err)
  with assms show ?thesis
    by (auto simp: handleUpload_states_def handleUpload_settled_def handleUpload_sent_def
          handleUpload_start_def)
next
  case (Inr r)
  then have "\<not> requestFails outcome"
    using requestFails_iff by simp
  with assms Inr show ?thesis
    by (auto simp: handleUpload_states_def handleUpload_settled_def handleUpload_sent_def
          handleUpload_start_def)
qed

lemma app_step_data:
  assumes "s' \<in> set (app_step ev s)"
  shows "data s' \<noteq> None \<longrightarrow> state s' = Success"
proof (cases ev)
  case (Upload f outcome)
  with assms handleUpload_states_data [of s' f outcome s] show ?thesis by auto
next
  case ResetApp
  with assms show ?thesis by (simp add: handleReset_app_def)
qed

lemma app_step_nonempty: "app_step ev s \<noteq> []"
  by (cases ev) (simp_all add: handleUpload_states_def)

lemma app_run_data:
  assumes "data s \<noteq> None \<longrightarrow> state s = Success"
    and "s' \<in> set (app_run s evs)"
  shows "data s' \<noteq> None \<longrightarrow> state s' = Success"
  using assms
proof (induction evs arbitrary: s)
  case Nil
  then show ?case by simp
next
  case (Cons ev evs)
  from Cons.prems(2)
  have "s' = s \<or> s' \<in> set (butlast (app_step ev s)) \<or>
        s' \<in> set (app_run (last (app_step ev s)) evs)"
    by simp
  then show ?case
  proof (elim disjE)
    assume "s' = s"
    with Cons.prems(1) show ?thesis by simp
  next
    assume "s' \<in> set (butlast (app_step ev s))"
    then have "s' \<in> set (app_step ev s)" by (rule in_set_butlastD)
    then show ?thesis by (rule app_step_data)
  next
    assume later: "s' \<in> set (app_run (last (app_step ev s)) evs)"
    have "last (app_step ev s) \<in> set (app_step ev s)"
      using app_step_nonempty by simp
    then have "data (last (app_step ev s)) \<noteq> None \<longrightarrow> state (last (app_step ev s)) = Success"
      by (rule app_step_data)
    from Cons.IH [OF this later] show ?thesis .
  qed
qed

text \<open>
  C5: in every run of \<open>handleUpload\<close> whose request fails (a status that is not ok, or
  anything thrown), the stored data is null in every state of the run, the final state is
  \<open>error\<close> with the message of the failure as the error, and the page renders that
  message (when it is not empty) and neither the loading notice nor a dashboard;
  and in every state the page passes through in any sequence of uploads and resets from
  the initial state, the data is non-null only in the state \<open>success\<close>.
\<close>

theorem failed_request_shows_no_result:
  "(requestFails outcome \<longrightarrow>
      (\<forall>s' \<in> set (handleUpload_states file outcome s). data s' = None) \<and>
      state (handleUpload file outcome s) = Error \<and>
      data (handleUpload file outcome s) = None \<and>
      (\<exists>err. request outcome = Inl err \<and>
             app_error (handleUpload file outcome s) = errorMessage err \<and>
             errorBox (render fl toFixed1 (handleUpload file outcome s)) =
               (if errorMessage err = [] then None else Some (errorMessage err))) \<and>
      loading (render fl toFixed1 (handleUpload file outcome s)) = None \<and>
      dashboard (render fl toFixed1 (handleUpload file outcome s)) = None) \<and>
   (\<forall>s' \<in> set (app_run initialApp evs). data s' \<noteq> None \<longrightarrow> state s' = Success)"
proof (intro conjI impI)
  assume f: "requestFails outcome"
  then obtain err where err: "request outcome = Inl err"
    using requestFails_iff by blast
  show "\<forall>s' \<in> set (handleUpload_states file outcome s). data s' = None"
    using f handleUpload_states_data by blast
  show "state (handleUpload file outcome s) = Error"
    by (simp add: handleUpload_failed [OF err])
  show "data (handleUpload file outcome s) = None"
    by (simp add: handleUpload_failed [OF err])
  show "\<exists>err. request outcome = Inl err \<and>
             app_error (handleUpload file outcome s) = errorMessage err \<and>
             errorBox (render fl toFixed1 (handleUpload file outcome s)) =
               (if errorMessage err = [] then None else Some (errorMessage err))"
    using err by (simp add: handleUpload_failed [OF err] render_def)
  show "loading (render fl toFixed1 (handleUpload file outcome s)) = None"
    by (simp add: handleUpload_failed [OF err] render_def)
  show "dashboard (render fl toFixed1 (handleUpload file outcome s)) = None"
    by (simp add: handleUpload_failed [OF err] render_def)
next
  have "data initialApp \<noteq> None \<longrightarrow> state initialApp = Success"
    by (simp add: initialApp_def)
  then show "\<forall>s' \<in> set (app_run initialApp evs). data s' \<noteq> None \<longrightarrow> state s' = Success"
    using app_run_data by blast
qed

theorem failed_request_shows_no_result_witness:
  "requestFails (ResponseNotOk 500 (Resolves NoDetail)) \<and>
   state (handleUpload upperCaseFile (ResponseNotOk 500 (Resolves NoDetail)) initialApp) = Error \<and>
   data (handleUpload upperCaseFile (ResponseNotOk 500 (Resolves NoDetail)) initialApp) = None \<and>
   app_error (handleUpload upperCaseFile (ResponseNotOk 500 (Resolves NoDetail)) initialApp) =
     ''HTTP error! status: 500'' \<and>
   errorBox (render (\<lambda>x. x) (\<lambda>x. [])
     (handleUpload upperCaseFile (ResponseNotOk 500 (Resolves NoDetail)) initialApp)) =
     Some ''HTTP error! status: 500'' \<and>
   dashboard (render (\<lambda>x. x) (\<lambda>x. [])
     (handleUpload upperCaseFile (ResponseNotOk 500 (Resolves NoDetail)) initialApp)) = None \<and>
   map (\<lambda>s. (state s, data s))
     (app_run initialApp [Upload upperCaseFile (ResponseOk (Resolves (Some sampleResponse))), ResetApp]) =
     [(Idle, None), (Uploading, None), (Processing, None), (Success, Some sampleResponse),
      (Idle, None)]"
proof -
  have f: "requestFails (ResponseNotOk 500 (Resolves NoDetail))"
    by simp
  have r: "request (ResponseNotOk 500 (Resolves NoDetail)) =
             Inl (ErrorInstance ''HTTP error! status: 500'')"
    by (simp add: showNat.simps digitChar_def)
  have run: "map (\<lambda>s. (state s, data s))
     (app_run initialApp [Upload upperCaseFile (ResponseOk (Resolves (Some sampleResponse))), ResetApp]) =
     [(Idle, None), (Uploading, None), (Processing, None), (Success, Some sampleResponse),
      (Idle, None)]"
    by (simp add: handleUpload_states_def handleUpload_settled_def handleUpload_sent_def
          handleUpload_start_def handleReset_app_def initialApp_def)
  from failed_request_shows_no_result
    [of "ResponseNotOk 500 (Resolves NoDetail)" upperCaseFile initialApp "\<lambda>x. x" "\<lambda>x. []" "[]"] f
  have "state (handleUpload upperCaseFile (ResponseNotOk 500 (Resolves NoDetail)) initialApp) = Error \<and>
        data (handleUpload upperCaseFile (ResponseNotOk 500 (Resolves NoDetail)) initialApp) = None \<and>
        (\<exists>err. request (ResponseNotOk 500 (Resolves NoDetail)) = Inl err \<and>
           app_error (handleUpload upperCaseFile (ResponseNotOk 500 (Resolves NoDetail)) initialApp) =
             errorMessage err \<and>
           errorBox (render (\<lambda>x. x) (\<lambda>x. [])
             (handleUpload upperCaseFile (ResponseNotOk 500 (Resolves NoDetail)) initialApp)) =
             (if errorMessage err = [] then None else Some (errorMessage err))) \<and>
        dashboard (render (\<lambda>x. x) (\<lambda>x. [])
          (handleUpload upperCaseFile (ResponseNotOk 500 (Resolves NoDetail)) initialApp)) = None"
    by blast
  with r f run show ?thesis
    by auto
qed

end
